theory Spec2Isabelle
  imports Complex_Main "HOL-Library.Char_ord" "HOL-Library.List_Lexorder"
begin

section \<open>Python values and exceptions\<close>

text \<open>
  The exceptions that the modelled code can meet. Every constructor stands for a subclass
  of Python's \<open>Exception\<close>, so \<open>except Exception\<close> catches each of them.
  \<open>OtherError\<close> is any further exception of a collaborator (a network failure of the
  market data provider, a decoding error of a file).
\<close>

datatype exc =
  IndexError | KeyError | TypeError | ValueError | AttributeError
  | ZeroDivisionError | OverflowError | FileNotFoundError | OSError | OtherError

text \<open>
  Values found in the provider's metadata dictionary and in the result dictionary.
  A Python float is modelled by the rational number it stands for: the arithmetic of the
  model is exact, and rounding is decimal rounding of the exact quotient.
\<close>

datatype pyval = PNone | PInt int | PFloat rat | PStr string

text \<open>Truth value of an object in a condition (\<open>if eps\<close>).\<close>

fun truthy :: "pyval \<Rightarrow> bool" where
  "truthy PNone = False"
| "truthy (PInt n) = (n \<noteq> 0)"
| "truthy (PFloat q) = (q \<noteq> 0)"
| "truthy (PStr s) = (s \<noteq> [])"

text \<open>The number a value stands for in arithmetic, if it is one.\<close>

fun number :: "pyval \<Rightarrow> rat option" where
  "number (PInt n) = Some (of_int n)"
| "number (PFloat q) = Some q"
| "number PNone = None"
| "number (PStr s) = None"

text \<open>True division \<open>a / b\<close>: a \<open>TypeError\<close> on a non-number, a
  \<open>ZeroDivisionError\<close> on a zero divisor.\<close>

definition truediv :: "pyval \<Rightarrow> pyval \<Rightarrow> exc + rat" where
  "truediv a b =
     (case (number a, number b) of
        (Some x, Some y) \<Rightarrow> if y = 0 then Inl ZeroDivisionError else Inr (x / y)
      | _ \<Rightarrow> Inl TypeError)"

text \<open>\<open>round(x, n)\<close>: to \<open>n\<close> decimal places, a tie going to the even neighbour.\<close>

definition round_half_even :: "rat \<Rightarrow> int" where
  "round_half_even q =
     (let f = \<lfloor>q\<rfloor>; d = q - of_int f
      in if d < 1 / 2 then f
         else if 1 / 2 < d then f + 1
         else if even f then f else f + 1)"

definition py_round :: "rat \<Rightarrow> nat \<Rightarrow> rat" where
  "py_round q n = of_int (round_half_even (q * 10 ^ n)) / 10 ^ n"

text \<open>Sequencing of computations that may raise.\<close>

definition and_then :: "exc + 'a \<Rightarrow> ('a \<Rightarrow> exc + 'b) \<Rightarrow> exc + 'b" where
  "and_then m f = (case m of Inl e \<Rightarrow> Inl e | Inr v \<Rightarrow> f v)"

section \<open>The market data provider\<close>

text \<open>
  A cell of a statement table: a finite number, the missing-value marker \<open>NaN\<close>, an
  infinity, or \<open>None\<close> in a table of objects.
\<close>

datatype cell = Fin rat | NaN | Infty | NoneCell

text \<open>\<open>int(v)\<close> on a cell: truncation towards zero of a finite number.\<close>

fun py_int :: "cell \<Rightarrow> exc + int" where
  "py_int (Fin q) = Inr (if 0 \<le> q then \<lfloor>q\<rfloor> else \<lceil>q\<rceil>)"
| "py_int NaN = Inl ValueError"
| "py_int Infty = Inl OverflowError"
| "py_int NoneCell = Inl TypeError"

text \<open>
  A statement table in the layout the code works on (after \<open>.T\<close>): one row per quarter,
  the most recent first, and one column per named field. The columns are the same for
  every row, as in a data frame; a row gives the cell of each column.
\<close>

record frame =
  columns :: "string list"
  rows :: "(string \<Rightarrow> cell) list"

text \<open>\<open>df.iloc[i]\<close> and \<open>row[name]\<close>.\<close>

definition iloc :: "frame \<Rightarrow> nat \<Rightarrow> exc + (string \<Rightarrow> cell)" where
  "iloc df i = (if i < length (rows df) then Inr (rows df ! i) else Inl IndexError)"

definition getitem :: "frame \<Rightarrow> (string \<Rightarrow> cell) \<Rightarrow> string \<Rightarrow> exc + cell" where
  "getitem df r name = (if name \<in> set (columns df) then Inr (r name) else Inl KeyError)"

text \<open>
  What \<open>yf.Ticker(ticker)\<close> gives: each property either raises or returns, and a
  returned statement table or metadata dictionary may be \<open>None\<close>.
\<close>

record stock =
  quarterly_balance_sheet :: "exc + frame option"
  quarterly_incomestmt :: "exc + frame option"
  info :: "exc + (string \<rightharpoonup> pyval) option"

type_synonym provider = "string \<Rightarrow> exc + stock"

section \<open>Ticker validator\<close>

text \<open>The \<open>try\<close> block of \<open>check_ticker_validity\<close>.\<close>

definition check_ticker_validity_try :: "provider \<Rightarrow> string \<Rightarrow> exc + bool" where
  "check_ticker_validity_try yf ticker =
     and_then (yf ticker) (\<lambda>stock.
     and_then (quarterly_balance_sheet stock) (\<lambda>sheet.
     and_then (case sheet of None \<Rightarrow> Inl AttributeError | Some df \<Rightarrow> Inr df) (\<lambda>balance_sheet.
     and_then (iloc balance_sheet 0) (\<lambda>r.
     and_then (getitem balance_sheet r ''Stockholders Equity'') (\<lambda>equity.
     Inr True)))))"

text \<open>The two handlers: \<open>(IndexError, KeyError)\<close> first, then \<open>Exception\<close>.\<close>

definition check_ticker_validity :: "provider \<Rightarrow> string \<Rightarrow> exc + bool" where
  "check_ticker_validity yf ticker =
     (case check_ticker_validity_try yf ticker of
        Inr b \<Rightarrow> Inr b
      | Inl e \<Rightarrow> if e = IndexError \<or> e = KeyError then Inr False else Inr False)"

section \<open>Metrics calculator\<close>

text \<open>The nested helper of \<open>extract_data\<close>: the four caught exceptions give 0,
  any other one goes on to the caller.\<close>

definition safe_int_access :: "frame \<Rightarrow> nat \<Rightarrow> string \<Rightarrow> exc + int" where
  "safe_int_access df row_idx column_name =
     (case and_then (iloc df row_idx) (\<lambda>r.
           and_then (getitem df r column_name) py_int) of
        Inr n \<Rightarrow> Inr n
      | Inl e \<Rightarrow>
          if e = KeyError \<or> e = IndexError \<or> e = TypeError \<or> e = ValueError
          then Inr 0 else Inl e)"

text \<open>The tuple that \<open>extract_data\<close> returns.\<close>

record metrics =
  stock_name :: pyval
  equity :: int
  cash :: int
  debt :: int
  market_cap :: pyval
  faustmann :: rat
  debt_to_equity :: rat
  roic :: rat
  price_earnings :: rat

text \<open>\<open>d.get(key, default)\<close>.\<close>

definition dict_get :: "(string \<rightharpoonup> pyval) \<Rightarrow> string \<Rightarrow> pyval \<Rightarrow> pyval" where
  "dict_get d k dflt = (case d k of None \<Rightarrow> dflt | Some v \<Rightarrow> v)"

text \<open>The list comprehension over \<open>range(4)\<close>, element by element.\<close>

fun net_incomes_from :: "frame \<Rightarrow> nat list \<Rightarrow> exc + int list" where
  "net_incomes_from df [] = Inr []"
| "net_incomes_from df (i # is) =
     and_then (safe_int_access df i ''Net Income'') (\<lambda>n.
     and_then (net_incomes_from df is) (\<lambda>ns. Inr (n # ns)))"

text \<open>The \<open>try\<close> block of \<open>extract_data\<close>.\<close>

definition extract_data_try :: "provider \<Rightarrow> string \<Rightarrow> exc + metrics option" where
  "extract_data_try yf ticker =
     and_then (yf ticker) (\<lambda>stock.
     and_then (quarterly_balance_sheet stock) (\<lambda>sheet.
     case sheet of None \<Rightarrow> Inr None | Some balance_sheet \<Rightarrow>
     and_then (quarterly_incomestmt stock) (\<lambda>stmt.
     case stmt of None \<Rightarrow> Inr None | Some income_statement \<Rightarrow>
     and_then (safe_int_access balance_sheet 0 ''Stockholders Equity'') (\<lambda>equity.
     and_then (safe_int_access balance_sheet 0 ''Cash And Cash Equivalents'') (\<lambda>cash.
     and_then (safe_int_access balance_sheet 0 ''Long Term Debt'') (\<lambda>long_term_debt.
     and_then (safe_int_access balance_sheet 0 ''Current Debt'') (\<lambda>current_debt.
     let debt = long_term_debt + current_debt in
     and_then (info stock) (\<lambda>meta.
     let stock_info = (case meta of None \<Rightarrow> Map.empty | Some d \<Rightarrow> d);
         market_cap = dict_get stock_info ''marketCap'' (PInt 0);
         stock_name = dict_get stock_info ''longName'' (PStr ''N/A'');
         denominator = equity + cash - debt in
     and_then (if denominator \<noteq> 0
               then and_then (truediv market_cap (PInt denominator)) (\<lambda>q. Inr (py_round q 3))
               else Inr 0) (\<lambda>faustmann.
     and_then (net_incomes_from income_statement [0 ..< 4]) (\<lambda>net_incomes.
     let net_income_ttm = sum_list net_incomes in
     and_then (if equity \<noteq> 0
               then and_then (truediv (PInt debt) (PInt equity)) (\<lambda>q. Inr (py_round q 3))
               else Inr 0) (\<lambda>debt_to_equity.
     and_then (if equity + debt \<noteq> 0
               then and_then (truediv (PInt net_income_ttm) (PInt (equity + debt)))
                      (\<lambda>q. Inr (py_round q 3))
               else Inr 0) (\<lambda>roic.
     let price = dict_get stock_info ''currentPrice'' (PInt 0);
         eps = dict_get stock_info ''trailingEps'' (PInt 0) in
     and_then (if truthy eps
               then and_then (truediv price eps) (\<lambda>q. Inr (py_round q 2))
               else Inr 0) (\<lambda>price_earnings.
     Inr (Some \<lparr> stock_name = stock_name, equity = equity, cash = cash, debt = debt,
                 market_cap = market_cap, faustmann = faustmann,
                 debt_to_equity = debt_to_equity, roic = roic,
                 price_earnings = price_earnings \<rparr>))))))))))))))"

text \<open>The handler \<open>except Exception\<close> returns \<open>None\<close>.\<close>

definition extract_data :: "provider \<Rightarrow> string \<Rightarrow> exc + metrics option" where
  "extract_data yf ticker =
     (case extract_data_try yf ticker of Inr r \<Rightarrow> Inr r | Inl e \<Rightarrow> Inr None)"

text \<open>
  \<open>process_ticker\<close>: unpacking the result of \<open>extract_data\<close> into nine names
  raises \<open>TypeError\<close> on \<open>None\<close>; the handler returns the empty dictionary.
  A dictionary is the list of its items, in insertion order.
\<close>

type_synonym dict = "(string \<times> pyval) list"

definition process_ticker :: "provider \<Rightarrow> string \<Rightarrow> exc + dict" where
  "process_ticker yf ticker =
     (case and_then (extract_data yf ticker)
             (\<lambda>r. case r of None \<Rightarrow> Inl TypeError | Some m \<Rightarrow> Inr m) of
        Inl error \<Rightarrow> Inr []
      | Inr m \<Rightarrow>
          Inr [(''Ticker'', PStr ticker),
               (''Stock name'', stock_name m),
               (''Equity'', PInt (equity m)),
               (''Cash'', PInt (cash m)),
               (''Debt'', PInt (debt m)),
               (''Market cap'', market_cap m),
               (''Faustmann'', PFloat (faustmann m)),
               (''ROIC'', PFloat (roic m)),
               (''Debt to equity'', PFloat (debt_to_equity m)),
               (''P/E'', PFloat (price_earnings m))])"

section \<open>Strings\<close>

text \<open>
  A character is a code point below 256. \<open>str.strip()\<close> removes the white space of
  \<open>str.isspace\<close> at both ends: in this range the code points 9 to 13, 28 to 32, 133
  and 160.
\<close>

definition isspace :: "char \<Rightarrow> bool" where
  "isspace c = (let n = (of_char c :: nat)
                in (9 \<le> n \<and> n \<le> 13) \<or> (28 \<le> n \<and> n \<le> 32) \<or> n = 133 \<or> n = 160)"

definition strip :: "string \<Rightarrow> string" where
  "strip s = rev (dropWhile isspace (rev (dropWhile isspace s)))"

section \<open>Ticker list file and processing flow\<close>

text \<open>
  What reading the ticker list gives: the file cannot be opened, or the reader delivers
  rows and may then raise. \<open>get_tickers\<close> catches every exception and returns the
  tickers collected so far.
\<close>

datatype csv_source = CannotOpen exc | Reader "string list list" "exc option"

fun get_tickers_loop :: "string list list \<Rightarrow> string list \<Rightarrow> string list" where
  "get_tickers_loop [] tickers = tickers"
| "get_tickers_loop (r # rest) tickers =
     (if r \<noteq> [] then
        (let ticker = strip (hd r)
         in if ticker \<noteq> [] then get_tickers_loop rest (tickers @ [ticker])
            else get_tickers_loop rest tickers)
      else get_tickers_loop rest tickers)"

fun get_tickers :: "csv_source \<Rightarrow> string list" where
  "get_tickers (CannotOpen e) = []"
| "get_tickers (Reader rs err) = get_tickers_loop rs []"

text \<open>
  The provider is asked twice for a valid ticker, once by the validator and once by the
  calculator, and may answer differently each time: \<open>world n\<close> is the provider as the
  \<open>n\<close>-th call of \<open>yf.Ticker\<close> finds it. The loop threads the number of calls made and
  the list \<open>processed_data\<close>.
\<close>

fun flow_loop :: "(nat \<Rightarrow> provider) \<Rightarrow> nat \<Rightarrow> string list \<Rightarrow> dict list \<Rightarrow> exc + dict list" where
  "flow_loop world n [] processed_data = Inr processed_data"
| "flow_loop world n (ticker # rest) processed_data =
     and_then (check_ticker_validity (world n) ticker) (\<lambda>valid.
       if valid then
         and_then (process_ticker (world (n + 1)) ticker) (\<lambda>data.
           flow_loop world (n + 2) rest (processed_data @ [data]))
       else flow_loop world (n + 1) rest processed_data)"

definition ticker_processing_flow :: "(nat \<Rightarrow> provider) \<Rightarrow> csv_source \<Rightarrow> exc + dict list" where
  "ticker_processing_flow world tickers_csv =
     flow_loop world 0 (get_tickers tickers_csv) []"

section \<open>Ticker extractor\<close>

text \<open>
  The parsed document: a tag with its name, the values of its \<open>class\<close> attribute and its
  children, or a text string. The parser that builds it from the file's text is a
  collaborator.
\<close>

datatype node = Tag string "string list" "node list" | NavigableString string

text \<open>All nodes below a node, in document order.\<close>

fun descendants :: "node \<Rightarrow> node list" where
  "descendants (NavigableString s) = []"
| "descendants (Tag name cls kids) = concat (map (\<lambda>k. k # descendants k) kids)"

fun is_tag :: "string \<Rightarrow> node \<Rightarrow> bool" where
  "is_tag name (Tag nm cls kids) = (nm = name)"
| "is_tag name (NavigableString s) = False"

fun has_class :: "string \<Rightarrow> node \<Rightarrow> bool" where
  "has_class c (Tag nm cls kids) = (c \<in> set cls)"
| "has_class c (NavigableString s) = False"

definition find_all :: "string \<Rightarrow> node \<Rightarrow> node list" where
  "find_all name n = filter (is_tag name) (descendants n)"

definition find_first :: "(node \<Rightarrow> bool) \<Rightarrow> node \<Rightarrow> node option" where
  "find_first p n = (case filter p (descendants n) of [] \<Rightarrow> None | x # xs \<Rightarrow> Some x)"

text \<open>\<open>get_text(strip=True)\<close>: the text strings below the node, each stripped, the
  empty ones dropped, joined without a separator.\<close>

fun strings :: "node \<Rightarrow> string list" where
  "strings (NavigableString s) = [s]"
| "strings (Tag name cls kids) = concat (map strings kids)"

definition get_text :: "node \<Rightarrow> string" where
  "get_text n = concat (filter (\<lambda>s. s \<noteq> []) (map strip (strings n)))"

text \<open>The loop over the rows of the table body, with the list \<open>tickers\<close>.\<close>

fun rows_loop :: "node list \<Rightarrow> string list \<Rightarrow> string list" where
  "rows_loop [] tickers = tickers"
| "rows_loop (r # rest) tickers =
     (let cells = find_all ''td'' r
      in if 1 < length cells then
           (let ticker_text = get_text (cells ! 1)
            in if ticker_text \<noteq> [] then rows_loop rest (tickers @ [ticker_text])
               else rows_loop rest tickers)
         else rows_loop rest tickers)"

text \<open>
  \<open>parse_screening_html\<close>, over a file system that gives for a path the parsed document
  or the exception of \<open>open\<close>/\<open>read\<close>. Only \<open>FileNotFoundError\<close> and \<open>OSError\<close> are
  caught.
\<close>

type_synonym filesystem = "string \<Rightarrow> exc + node"

definition parse_screening_html :: "filesystem \<Rightarrow> string \<Rightarrow> exc + string list" where
  "parse_screening_html fs file_path =
     (case fs file_path of
        Inl e \<Rightarrow>
          if e = FileNotFoundError then Inr []
          else if e = OSError then Inr []
          else Inl e
      | Inr soup \<Rightarrow>
          (case find_first (\<lambda>n. is_tag ''table'' n \<and> has_class ''screeningdata'' n) soup of
             None \<Rightarrow> Inr []
           | Some table \<Rightarrow>
               (case find_first (is_tag ''tbody'') table of
                  None \<Rightarrow> Inr []
                | Some tbody \<Rightarrow> Inr (rows_loop (find_all ''tr'' tbody) []))))"

section \<open>Ticker aggregator\<close>

text \<open>\<open>str(cap)\<close> for an integer threshold, as the f-string formats it.\<close>

fun digits :: "nat \<Rightarrow> string" where
  "digits n =
     (if n < 10 then [char_of (48 + n)]
      else digits (n div 10) @ [char_of (48 + n mod 10)])"

declare digits.simps [simp del]

definition str_int :: "int \<Rightarrow> string" where
  "str_int i = (if i < 0 then CHR ''-'' # digits (nat (- i)) else digits (nat i))"

definition html_path :: "int \<Rightarrow> string" where
  "html_path cap =
     ''./monthly_magic_formula/tickers_from_html/stock_screening_results_''
       @ str_int cap @ ''.html''"

text \<open>The loop over \<open>market_caps\<close> with the list \<open>all_tickers\<close>; an exception of the
  extractor is not caught here.\<close>

fun caps_loop :: "filesystem \<Rightarrow> int list \<Rightarrow> string list \<Rightarrow> exc + string list" where
  "caps_loop fs [] all_tickers = Inr all_tickers"
| "caps_loop fs (cap # rest) all_tickers =
     and_then (parse_screening_html fs (html_path cap)) (\<lambda>extracted_tickers.
       caps_loop fs rest (all_tickers @ extracted_tickers))"

text \<open>
  \<open>aggregate_tickers_from_html\<close>. Writing the file either succeeds or raises
  (\<open>write_error\<close>); the handler logs and raises again. The result is the list of rows
  handed to the CSV writer, one field each.
\<close>

definition aggregate_tickers_from_html ::
  "filesystem \<Rightarrow> exc option \<Rightarrow> int list \<Rightarrow> exc + string list list" where
  "aggregate_tickers_from_html fs write_error market_caps =
     and_then (caps_loop fs market_caps []) (\<lambda>all_tickers.
       let unique_tickers = sorted_list_of_set (set all_tickers)
       in case write_error of
            Some e \<Rightarrow> Inl e
          | None \<Rightarrow> Inr (map (\<lambda>ticker. [ticker]) unique_tickers))"

section \<open>Descriptions used by the properties\<close>




text \<open>
  The extractor as the specification words it: for each row with at least two columns,
  the text of the second column.
\<close>

definition second_column_texts :: "node list \<Rightarrow> string list" where
  "second_column_texts trs =
     map (\<lambda>r. get_text (find_all ''td'' r ! 1))
       (filter (\<lambda>r. 2 \<le> length (find_all ''td'' r)) trs)"

section \<open>Example inputs\<close>

text \<open>A results page with the given rows of cell texts, and file systems holding pages.\<close>

definition td :: "string \<Rightarrow> node" where
  "td s = Tag ''td'' [] [NavigableString s]"

definition tr :: "string list \<Rightarrow> node" where
  "tr cs = Tag ''tr'' [] (map td cs)"

definition tbody_of :: "string list list \<Rightarrow> node" where
  "tbody_of rs = Tag ''tbody'' [] (map tr rs)"

definition table_of :: "string list list \<Rightarrow> node" where
  "table_of rs = Tag ''table'' [''screeningdata''] [tbody_of rs]"

definition page_of :: "string list list \<Rightarrow> node" where
  "page_of rs = Tag ''[document]'' [] [Tag ''html'' [] [Tag ''body'' [] [table_of rs]]]"

definition fs_of :: "node \<Rightarrow> filesystem" where
  "fs_of doc p = Inr doc"




definition stored_pages :: filesystem where
  "stored_pages p =
     (if p = html_path 250
      then Inr (page_of [[''1'', ''AAPL'', ''...''], [''2'', ''MSFT'', ''...'']])
      else if p = html_path 500
      then Inr (page_of [[''1'', ''MSFT'', ''...''], [''2'', ''GOOG'', ''...'']])
      else Inl FileNotFoundError)"

definition stored_tickers :: "int \<Rightarrow> string list" where
  "stored_tickers cap = (if cap = 250 then [''AAPL'', ''MSFT''] else [''MSFT'', ''GOOG''])"

text \<open>Statement tables, stock objects and providers.\<close>

definition sheet_of :: "rat \<Rightarrow> rat \<Rightarrow> rat \<Rightarrow> frame" where
  "sheet_of e c d =
     \<lparr> columns = [''Stockholders Equity'', ''Cash And Cash Equivalents'', ''Long Term Debt'',
                   ''Current Debt''],
       rows = [\<lambda>name. if name = ''Stockholders Equity'' then Fin e
                      else if name = ''Cash And Cash Equivalents'' then Fin c
                      else if name = ''Long Term Debt'' then Fin d
                      else NaN] \<rparr>"

definition income_of :: "cell list \<Rightarrow> frame" where
  "income_of cs = \<lparr> columns = [''Net Income''], rows = map (\<lambda>c name. c) cs \<rparr>"

definition acme_info :: "string \<rightharpoonup> pyval" where
  "acme_info = [''marketCap'' \<mapsto> PInt 900, ''longName'' \<mapsto> PStr ''Acme'']"

definition acme :: stock where
  "acme = \<lparr> quarterly_balance_sheet = Inr (Some (sheet_of 100 20 30)),
            quarterly_incomestmt = Inr (Some (income_of [Fin 10, NaN, Fin 30])),
            info = Inr (Some acme_info) \<rparr>"

definition shell :: stock where
  "shell = \<lparr> quarterly_balance_sheet = Inr (Some (sheet_of 0 0 0)),
             quarterly_incomestmt = Inr (Some (income_of [Fin 5])),
             info = Inr (Some acme_info) \<rparr>"

definition void :: stock where
  "void = \<lparr> quarterly_balance_sheet = Inr (Some (sheet_of 100 20 30)),
            quarterly_incomestmt = Inr None, info = Inr None \<rparr>"

definition unlisted :: stock where
  "unlisted = \<lparr> quarterly_balance_sheet = Inr (Some \<lparr> columns = [], rows = [] \<rparr>),
                quarterly_incomestmt = Inr (Some \<lparr> columns = [], rows = [] \<rparr>),
                info = Inr None \<rparr>"

definition market :: "nat \<Rightarrow> provider" where
  "market n t =
     (if t = ''ACME'' then Inr acme
      else if t = ''SHELL'' then Inr shell
      else if t = ''VOID'' then Inr void
      else if t = ''UNLISTED'' then Inr unlisted
      else Inl OtherError)"

section \<open>Basic facts\<close>

lemma and_then_simps [simp]: "and_then (Inr x) f = f x" "and_then (Inl e) f = Inl e"
  by (simp_all add: and_then_def)






section \<open>The validator\<close>




section \<open>The extractor\<close>

lemma rows_loop_eq:
  "rows_loop rs acc = acc @ filter (\<lambda>t. t \<noteq> []) (second_column_texts rs)"
proof (induction rs arbitrary: acc)
  case Nil
  show ?case by (simp add: second_column_texts_def)
next
  case (Cons r rs)
  show ?case
    by (simp add: Let_def Cons.IH second_column_texts_def)
qed

lemma page_examples:
  "parse_screening_html (fs_of (page_of [[''1'', ''AAPL'', ''...''], [''2'', ''MSFT'', ''...'']]))
     ''page.html'' = Inr [''AAPL'', ''MSFT'']"
  "parse_screening_html (fs_of (page_of [[''1'', '' '', ''...''], [''2''], [''3'', '' MSFT '']]))
     ''page.html'' = Inr [''MSFT'']"
  "parse_screening_html (fs_of (page_of [[''1'', '' '']])) ''page.html'' = Inr []"
  "second_column_texts (find_all ''tr'' (tbody_of [[''1'', '' '']])) = [[]]"
  by code_simp+

lemma find_in_page:
  "find_first (\<lambda>n. is_tag ''table'' n \<and> has_class ''screeningdata'' n) (page_of rs)
     = Some (table_of rs)"
  "find_first (is_tag ''tbody'') (table_of rs) = Some (tbody_of rs)"
  by (simp_all add: find_first_def page_of_def table_of_def tbody_of_def)

text \<open>
  Claim C6, as stated: for a document with the results table and its body, the extractor
  returns the second-column text of every row with at least two columns. It fails on a
  row whose second column holds only white space: the stated list has the empty text
  there, the extractor returns nothing for that row.
\<close>

theorem second_column_counterexample:
  "find_first (\<lambda>n. is_tag ''table'' n \<and> has_class ''screeningdata'' n) (page_of [[''1'', '' '']])
     = Some (table_of [[''1'', '' '']])
   \<and> find_first (is_tag ''tbody'') (table_of [[''1'', '' '']]) = Some (tbody_of [[''1'', '' '']])
   \<and> parse_screening_html (fs_of (page_of [[''1'', '' '']])) ''page.html''
       \<noteq> Inr (second_column_texts (find_all ''tr'' (tbody_of [[''1'', '' '']])))"
  by (simp add: page_examples find_in_page)

text \<open>
  Claim C6, amended: for a document with the results table and its body, the extractor
  returns, in row order, the second-column text of every row with at least two columns
  whose second-column text is not empty after stripping.
\<close>

theorem extractor_second_column:
  assumes "fs p = Inr soup"
    and "find_first (\<lambda>n. is_tag ''table'' n \<and> has_class ''screeningdata'' n) soup = Some table"
    and "find_first (is_tag ''tbody'') table = Some tbody"
  shows "parse_screening_html fs p =
           Inr (filter (\<lambda>t. t \<noteq> []) (second_column_texts (find_all ''tr'' tbody)))"
  using assms unfolding parse_screening_html_def by (simp add: rows_loop_eq)

lemma scenario_rows:
  "filter (\<lambda>t. t \<noteq> [])
     (second_column_texts
        (find_all ''tr'' (tbody_of [[''1'', ''AAPL'', ''...''], [''2'', ''MSFT'', ''...'']])))
   = [''AAPL'', ''MSFT'']"
  by code_simp

theorem extractor_second_column_witness:
  "fs_of (page_of [[''1'', ''AAPL'', ''...''], [''2'', ''MSFT'', ''...'']]) ''page.html''
     = Inr (page_of [[''1'', ''AAPL'', ''...''], [''2'', ''MSFT'', ''...'']])
   \<and> parse_screening_html
        (fs_of (page_of [[''1'', ''AAPL'', ''...''], [''2'', ''MSFT'', ''...'']])) ''page.html''
       = Inr [''AAPL'', ''MSFT'']"
  using extractor_second_column
    [of "fs_of (page_of [[''1'', ''AAPL'', ''...''], [''2'', ''MSFT'', ''...'']])" "''page.html''",
     OF _ find_in_page(1) find_in_page(2)]
  by (simp add: fs_of_def scenario_rows)




text \<open>
  Claim C10. No ticker returned by the extractor is the empty string; a row whose second
  column has only empty text after stripping adds nothing to the list, and neither does a
  row with fewer than two columns.
\<close>

theorem extracted_nonempty:
  "(parse_screening_html fs p = Inr ts \<longrightarrow> [] \<notin> set ts)
   \<and> (1 < length (find_all ''td'' r) \<and> get_text (find_all ''td'' r ! 1) = []
        \<longrightarrow> rows_loop (r # rest) acc = rows_loop rest acc)
   \<and> (length (find_all ''td'' r) \<le> 1 \<longrightarrow> rows_loop (r # rest) acc = rows_loop rest acc)"
proof (intro conjI impI)
  assume "parse_screening_html fs p = Inr ts"
  then show "[] \<notin> set ts"
    unfolding parse_screening_html_def
    by (auto simp: rows_loop_eq split: sum.splits option.splits if_splits)
next
  assume "1 < length (find_all ''td'' r) \<and> get_text (find_all ''td'' r ! 1) = []"
  then show "rows_loop (r # rest) acc = rows_loop rest acc"
    by (simp add: Let_def)
next
  assume "length (find_all ''td'' r) \<le> 1"
  then show "rows_loop (r # rest) acc = rows_loop rest acc"
    by (simp add: Let_def)
qed

lemma row_examples:
  "length (find_all ''td'' (tr [''1'', '' '', ''...''])) = 3"
  "get_text (find_all ''td'' (tr [''1'', '' '', ''...'']) ! 1) = []"
  "length (find_all ''td'' (tr [''2''])) = 1"
  by code_simp+

theorem extracted_nonempty_witness:
  "parse_screening_html (fs_of (page_of [[''1'', '' '', ''...''], [''2''], [''3'', '' MSFT '']]))
     ''page.html'' = Inr [''MSFT'']
   \<and> [] \<notin> set [''MSFT'']
   \<and> 1 < length (find_all ''td'' (tr [''1'', '' '', ''...'']))
   \<and> get_text (find_all ''td'' (tr [''1'', '' '', ''...'']) ! 1) = []
   \<and> rows_loop [tr [''1'', '' '', ''...'']] [''AAPL''] = rows_loop [] [''AAPL'']
   \<and> length (find_all ''td'' (tr [''2''])) \<le> 1
   \<and> rows_loop [tr [''2'']] [''AAPL''] = rows_loop [] [''AAPL'']"
  using extracted_nonempty
    [of "fs_of (page_of [[''1'', '' '', ''...''], [''2''], [''3'', '' MSFT '']])" "''page.html''"
        "[''MSFT'']" "tr [''1'', '' '', ''...'']" "[]" "[''AAPL'']"]
    extracted_nonempty
    [of "fs_of (page_of [[''1'', '' '', ''...''], [''2''], [''3'', '' MSFT '']])" "''page.html''"
        "[''MSFT'']" "tr [''2'']" "[]" "[''AAPL'']"]
    page_examples(2) row_examples
  by simp

section \<open>The metrics calculator\<close>

























lemma process_ticker_returns: "\<exists>d. process_ticker yf t = Inr d"
  by (simp add: process_ticker_def split: sum.splits)

lemma check_ticker_validity_returns: "\<exists>b. check_ticker_validity yf t = Inr b"
  by (cases "check_ticker_validity_try yf t") (auto simp: check_ticker_validity_def)

lemma absent_examples:
  "extract_data (market 0) ''VOID'' = Inr None"
  "process_ticker (market 0) ''VOID'' = Inr []"
  "extract_data (market 0) ''NONE'' = Inr None"
  "process_ticker (market 0) ''NONE'' = Inr []"
  by code_simp+



section \<open>The aggregator\<close>

lemma caps_loop_extracted:
  assumes "\<forall>cap \<in> set caps. parse_screening_html fs (html_path cap) = Inr (ext cap)"
  shows "caps_loop fs caps acc = Inr (acc @ concat (map ext caps))"
  using assms by (induction caps arbitrary: acc) simp_all

lemma stored_examples:
  "parse_screening_html stored_pages (html_path 250) = Inr (stored_tickers 250)"
  "parse_screening_html stored_pages (html_path 500) = Inr (stored_tickers 500)"
  "aggregate_tickers_from_html stored_pages None [250, 500]
     = Inr [[''AAPL''], [''GOOG''], [''MSFT'']]"
  "aggregate_tickers_from_html stored_pages None [500, 250, 500]
     = Inr [[''AAPL''], [''GOOG''], [''MSFT'']]"
  by code_simp+

text \<open>
  Claim C5. When the extractor returns a ticker list for each threshold, the aggregator
  writes one row per ticker, each with the ticker as its single field, and these tickers
  are the sorted list without duplicates of the union of all extracted lists. Another
  list of the same thresholds, in any order and with any repetition, gives the same
  result.
\<close>

theorem aggregate_sorted_union:
  assumes "\<forall>cap \<in> set caps. parse_screening_html fs (html_path cap) = Inr (ext cap)"
  shows "\<exists>out. aggregate_tickers_from_html fs None caps = Inr (map (\<lambda>t. [t]) out)
           \<and> sorted out \<and> distinct out \<and> set out = (\<Union>cap \<in> set caps. set (ext cap))
           \<and> (\<forall>caps'. set caps' = set caps \<longrightarrow>
                 aggregate_tickers_from_html fs None caps'
                   = aggregate_tickers_from_html fs None caps)"
proof -
  let ?U = "\<Union>cap \<in> set caps. set (ext cap)"
  have fin: "finite ?U" by simp
  have agg: "aggregate_tickers_from_html fs None cs
               = Inr (map (\<lambda>t. [t]) (sorted_list_of_set ?U))" if "set cs = set caps" for cs
  proof -
    from that assms
    have "\<forall>cap \<in> set cs. parse_screening_html fs (html_path cap) = Inr (ext cap)" by simp
    then have "caps_loop fs cs [] = Inr (concat (map ext cs))"
      using caps_loop_extracted [of cs fs ext "[]"] by simp
    moreover have "set (concat (map ext cs)) = ?U" using that by auto
    ultimately show ?thesis
      by (simp add: aggregate_tickers_from_html_def)
  qed
  show ?thesis
  proof (intro exI [of _ "sorted_list_of_set ?U"] conjI allI impI)
    show "aggregate_tickers_from_html fs None caps
            = Inr (map (\<lambda>t. [t]) (sorted_list_of_set ?U))"
      by (rule agg) simp
    show "sorted (sorted_list_of_set ?U)" by simp
    show "distinct (sorted_list_of_set ?U)" by simp
    show "set (sorted_list_of_set ?U) = ?U" using fin by simp
  next
    fix caps' assume "set caps' = set caps"
    then show "aggregate_tickers_from_html fs None caps'
                 = aggregate_tickers_from_html fs None caps"
      using agg [of caps'] agg [of caps] by simp
  qed
qed

theorem aggregate_sorted_union_witness:
  "parse_screening_html stored_pages (html_path 250) = Inr [''AAPL'', ''MSFT'']
   \<and> parse_screening_html stored_pages (html_path 500) = Inr [''MSFT'', ''GOOG'']
   \<and> aggregate_tickers_from_html stored_pages None [250, 500]
       = Inr [[''AAPL''], [''GOOG''], [''MSFT'']]
   \<and> aggregate_tickers_from_html stored_pages None [500, 250, 500]
       = aggregate_tickers_from_html stored_pages None [250, 500]"
  using aggregate_sorted_union [of "[250, 500]" stored_pages stored_tickers]
  by (simp add: stored_examples stored_tickers_def)

section \<open>The processing flow\<close>

lemma flow_loop_returns: "\<exists>out. flow_loop world n ts acc = Inr out"
proof (induction ts arbitrary: n acc)
  case Nil
  show ?case by simp
next
  case (Cons t ts)
  obtain b where b: "check_ticker_validity (world n) t = Inr b"
    using check_ticker_validity_returns by blast
  obtain d where d: "process_ticker (world (n + 1)) t = Inr d"
    using process_ticker_returns by blast
  show ?case using b d Cons.IH by simp
qed

text \<open>
  Claim C1, at a failing input. The ticker list is ACME, VOID, NONE. ACME is valid and
  computed; NONE is not valid and is skipped. VOID passes validation (its balance sheet
  has an equity row), its income statement is \<open>None\<close>, so the calculator yields absent
  and \<open>process_ticker\<close> returns the empty dictionary: the flow appends that empty
  dictionary to its output, where the claim allows no entry for VOID.
\<close>

theorem flow_appends_empty_record:
  "check_ticker_validity (market 2) ''VOID'' = Inr True
   \<and> extract_data (market 3) ''VOID'' = Inr None
   \<and> process_ticker (market 3) ''VOID'' = Inr []
   \<and> ticker_processing_flow market (Reader [[''ACME''], [''VOID''], [''NONE'']] None)
       = Inr [[(''Ticker'', PStr ''ACME''), (''Stock name'', PStr ''Acme''),
               (''Equity'', PInt 100), (''Cash'', PInt 20), (''Debt'', PInt 30),
               (''Market cap'', PInt 900), (''Faustmann'', PFloat 10),
               (''ROIC'', PFloat (77 / 250)), (''Debt to equity'', PFloat (3 / 10)),
               (''P/E'', PFloat 0)],
              []]"
  by code_simp

end
